theory Spec2Isabelle
  imports Main
begin

section \<open>Go values\<close>

text \<open>
  A value of type \<open>interface{}\<close> (a payload, the metadata of an error, a value stored in
  a context) is one of the dynamic types below. \<open>VNil\<close> is the nil interface and
  \<open>VFunc\<close> stands for the values no encoder accepts (functions, channels).
  Go's \<open>int\<close> is modelled by \<open>int\<close>: the package only stores and compares such
  numbers, it never computes with them.
\<close>

datatype iface = VNil | VBool bool | VInt int | VString string | VFunc

definition digit :: "nat \<Rightarrow> char" where
  "digit d = ''0123456789'' ! d"

fun digits :: "nat \<Rightarrow> string" where
  "digits n = (if n < 10 then [digit n] else digits (n div 10) @ [digit (n mod 10)])"

declare digits.simps [simp del]

definition itoa :: "int \<Rightarrow> string" where
  \<comment> \<open>the verb \<open>%d\<close> of \<open>fmt\<close>, and how \<open>encoding/json\<close> writes an integer\<close>
  "itoa i = (if i < 0 then CHR ''-'' # digits (nat (- i)) else digits (nat i))"


section \<open>errors.go: the error value\<close>

record Err =
  Code :: int
  Message :: string
  Meta :: iface

text \<open>
  The values of Go's \<open>error\<close> interface that occur in the package: an error made by
  \<open>fmt.Errorf\<close> or \<open>errors.New\<close>, an \<open>Err\<close> value, and the result of
  \<open>wrapErr.Wrap outer inner\<close>. The wrapping library is not part of the repository:
  \<open>Wrap\<close> is kept as a constructor holding both arguments, the inner one possibly nil.
\<close>

datatype go_error = Errorf string | ErrValue Err | Wrap go_error "go_error option"

definition Error :: "Err \<Rightarrow> string" where
  "Error e = Message e"

definition Is :: "Err \<Rightarrow> go_error option \<Rightarrow> bool" where
  \<comment> \<open>the type assertion \<open>target.(Err)\<close> succeeds on \<open>Err\<close> values only\<close>
  "Is e target = (case target of Some (ErrValue err2) \<Rightarrow> Code e = Code err2 | _ \<Rightarrow> False)"

definition NewErr :: "int \<Rightarrow> string \<Rightarrow> iface \<Rightarrow> Err" where
  "NewErr code message meta = \<lparr>Code = code, Message = message, Meta = meta\<rparr>"

definition zeroErr :: Err where
  \<comment> \<open>\<open>var e Err\<close>\<close>
  "zeroErr = \<lparr>Code = 0, Message = [], Meta = VNil\<rparr>"

definition nilDereference :: go_error where
  \<comment> \<open>the run-time panic of a call through a nil function or nil interface value\<close>
  "nilDereference = Errorf ''runtime error: invalid memory address or nil pointer dereference''"


section \<open>encoders.go\<close>

text \<open>
  An \<open>io.Reader\<close> is the bytes it yields, \<open>None\<close> being the nil interface. An encoder
  returns the pair \<open>(io.Reader, error)\<close> of the source.
\<close>

type_synonym DataEncoder = "iface \<Rightarrow> string option \<times> go_error option"

text \<open>
  \<open>json.Marshal\<close> of the standard library on the values above; \<open>Inl\<close> is its error
  text. How it quotes and escapes a string is left to the parameter \<open>quote\<close>.
\<close>

fun json_Marshal :: "(string \<Rightarrow> string) \<Rightarrow> iface \<Rightarrow> string + string" where
  "json_Marshal quote VNil = Inr ''null''"
| "json_Marshal quote (VBool b) = Inr (if b then ''true'' else ''false'')"
| "json_Marshal quote (VInt i) = Inr (itoa i)"
| "json_Marshal quote (VString s) = Inr (quote s)"
| "json_Marshal quote VFunc = Inl ''json: unsupported type: func()''"

text \<open>\<open>enc\<close> is \<open>gob.Encoder.Encode\<close> writing into a fresh buffer.\<close>

definition GobEncoder :: "(iface \<Rightarrow> string + string) \<Rightarrow> DataEncoder" where
  "GobEncoder enc payload =
     (if payload = VNil then (None, None)
      else case enc payload of
             Inl err \<Rightarrow> (None, Some (Errorf (''gob enc.Encode: '' @ err)))
           | Inr network \<Rightarrow> (Some network, None))"

definition JsonEncoder :: "(string \<Rightarrow> string) \<Rightarrow> DataEncoder" where
  "JsonEncoder quote payload =
     (case json_Marshal quote payload of
        Inl err \<Rightarrow> (None, Some (Errorf (''json Marshal: '' @ err)))
      | Inr data \<Rightarrow> (Some data, None))"


section \<open>The decoders\<close>

text \<open>
  A decoder reads a stream into the target \<open>res\<close> it is given as \<open>interface{}\<close>. The
  package passes two kinds of target: a pointer to an \<open>Err\<close> (in
  \<open>defaultErrorHandler\<close>) and the caller's \<open>Result\<close>. A decoder is therefore a pair of
  functions, one for each kind; each returns the error (if any) and the target as the
  decoder leaves it. The type parameter is the type of the error.
\<close>

record 'e decoder =
  intoErr :: "string \<Rightarrow> Err \<Rightarrow> 'e option \<times> Err"
  intoResult :: "string \<Rightarrow> iface \<Rightarrow> 'e option \<times> iface"

type_synonym DataDecoder = "go_error decoder"

definition decodeWith :: "string \<Rightarrow> (string \<Rightarrow> 'a \<Rightarrow> string option \<times> 'a) \<Rightarrow>
    string \<Rightarrow> 'a \<Rightarrow> go_error option \<times> 'a" where
  \<comment> \<open>the body shared by both decoders: \<open>dec.Decode(res)\<close>, its error reworded\<close>
  "decodeWith prefix Decode reader res =
     (case Decode reader res of
        (Some err, res') \<Rightarrow> (Some (Errorf (prefix @ err)), res')
      | (None, res') \<Rightarrow> (None, res'))"

text \<open>\<open>dec\<close> is \<open>gob.Decoder.Decode\<close>, respectively \<open>json.Decoder.Decode\<close>.\<close>

definition GobDecoder :: "string decoder \<Rightarrow> DataDecoder" where
  "GobDecoder dec =
     \<lparr>intoErr = decodeWith ''gob dec.Decode: '' (intoErr dec),
      intoResult = decodeWith ''gob dec.Decode: '' (intoResult dec)\<rparr>"

definition JsonDecoder :: "string decoder \<Rightarrow> DataDecoder" where
  "JsonDecoder dec =
     \<lparr>intoErr = decodeWith ''json dec.Decode: '' (intoErr dec),
      intoResult = decodeWith ''json dec.Decode: '' (intoResult dec)\<rparr>"


section \<open>Requests, responses and headers of net/http\<close>

text \<open>
  A context is read through \<open>ctx.Value\<close> only, and only at a key of type string: it is
  the function from such keys to the stored value, \<open>VNil\<close> where nothing is stored.
\<close>

type_synonym Context = "string \<Rightarrow> iface"

definition Background :: Context where
  "Background = (\<lambda>key. VNil)"

type_synonym Header = "string \<rightharpoonup> string list"

definition lowers :: string where
  "lowers = ''abcdefghijklmnopqrstuvwxyz''"

definition uppers :: string where
  "uppers = ''ABCDEFGHIJKLMNOPQRSTUVWXYZ''"

definition validHeaderFieldByte :: "char \<Rightarrow> bool" where
  \<comment> \<open>the token characters of RFC 7230\<close>
  "validHeaderFieldByte b =
     (b \<in> set lowers \<or> b \<in> set uppers \<or> b \<in> set ''0123456789'' \<or>
      b \<in> set ''!#$%&*+-.^_|~'' \<or> b = CHR 0x27 \<or> b = CHR 0x60)"

definition toUpper :: "char \<Rightarrow> char" where
  "toUpper b = (case map_of (zip lowers uppers) b of Some u \<Rightarrow> u | None \<Rightarrow> b)"

definition toLower :: "char \<Rightarrow> char" where
  "toLower b = (case map_of (zip uppers lowers) b of Some l \<Rightarrow> l | None \<Rightarrow> b)"

fun canonical :: "bool \<Rightarrow> string \<Rightarrow> string" where
  \<comment> \<open>upper case at the start and after each dash, lower case elsewhere\<close>
  "canonical upper [] = []"
| "canonical upper (b # bs) =
     (let b' = (if upper then toUpper b else toLower b)
      in b' # canonical (b' = CHR ''-'') bs)"

definition CanonicalMIMEHeaderKey :: "string \<Rightarrow> string" where
  \<comment> \<open>\<open>net/textproto\<close>: a key with a byte outside the token characters is left as it is\<close>
  "CanonicalMIMEHeaderKey s = (if list_all validHeaderFieldByte s then canonical True s else s)"

definition Header_Set :: "Header \<Rightarrow> string \<Rightarrow> string \<Rightarrow> Header" where
  \<comment> \<open>\<open>http.Header.Set\<close> replaces whatever the canonical key held\<close>
  "Header_Set h key val = h(CanonicalMIMEHeaderKey key \<mapsto> [val])"

text \<open>
  Of a request the model keeps the context, the method, the URL string given to
  \<open>http.NewRequestWithContext\<close>, the parameters added to its query, the header and the
  body. Of a response it keeps the status code and the bytes of the body.
\<close>

record Request =
  Ctx :: Context
  Method :: string
  URL :: string
  Query :: "(string \<times> string) list"
  Header :: Header
  Body :: "string option"

record Response =
  StatusCode :: int
  Body :: string

record http_Client =
  Timeout :: int
  TransportMaxIdleConnsPerHost :: int

text \<open>
  What the package takes from outside the repository: the standard library, the curl
  printer, the clock and the network. \<open>Do\<close> is \<open>http.Client.Do\<close>: the response or the
  transport error that one round trip gives.
\<close>

record stdlib =
  json_quote :: "string \<Rightarrow> string"
  json_Decode :: "string decoder"
  gob_Encode :: "iface \<Rightarrow> string + string"
  gob_Decode :: "string decoder"
  request_error :: "string \<Rightarrow> string \<Rightarrow> go_error option"
  GetCurlCommand :: "Request \<Rightarrow> string"
  requestTook :: string
  Do :: "http_Client \<Rightarrow> Request \<Rightarrow> go_error + Response"

definition NewRequestWithContext :: "stdlib \<Rightarrow> Context option \<Rightarrow> string \<Rightarrow> string \<Rightarrow>
    string option \<Rightarrow> go_error + Request" where
  \<comment> \<open>\<open>request_error\<close> is the library's verdict on the method and on the URL\<close>
  "NewRequestWithContext lib ctx method url body =
     (case request_error lib method url of
        Some err \<Rightarrow> Inl err
      | None \<Rightarrow>
          (case ctx of
             None \<Rightarrow> Inl (Errorf ''net/http: nil Context'')
           | Some ctx' \<Rightarrow>
               Inr \<lparr>Ctx = ctx', Method = method, URL = url, Query = [],
                    Header = Map.empty, Request.Body = body\<rparr>))"


section \<open>The client\<close>

text \<open>
  A Go map is a reference to a table, and the two structs below keep in their header
  field the map they are given, not a copy of it. The type \<open>'m\<close> of that field is left
  open. Where one call reads the map, it is the list of the entries, in the order the
  range statement visits them (an order the language leaves open): this is the type
  \<open>HttpClient\<close>, the client as a call finds it. Where the lifetime of a client
  matters, it is the address of the table (section on the header map in memory).
  Function values and the two codecs may be nil, hence \<open>option\<close>.
\<close>

record 'm HttpClientOf =
  baseUrl :: string
  errorHandler :: "(string \<Rightarrow> go_error option) option"
  isError :: "(Response \<Rightarrow> bool) option"
  headers :: 'm
  httpClient2 :: http_Client
  requestPayloadEncoder :: "DataEncoder option"
  requestPayloadDecoder :: "DataDecoder option"
  contextRequestId :: string
  headerKeyRequestID :: string
  debugMode :: bool

type_synonym HttpClient = "(string \<times> string) list HttpClientOf"

record 'm HttpClientParamsOf =
  BaseUrl :: string
  ErrorHandler :: "(string \<Rightarrow> go_error option) option"
  IsError :: "(Response \<Rightarrow> bool) option"
  Headers :: 'm
  Timeout :: int
  RequestPayloadEncoder :: "DataEncoder option"
  RequestPayloadDecoder :: "DataDecoder option"
  MaxIdleConnsPerHost :: int
  ContextRequestId :: string
  HeaderKeyRequestID :: string
  DebugMode :: bool

type_synonym HttpClientParams = "(string \<times> string) list HttpClientParamsOf"

definition NewHttpClient :: "stdlib \<Rightarrow> 'm HttpClientParamsOf \<Rightarrow> 'm HttpClientOf" where
  "NewHttpClient lib params =
     (let transportMaxIdleConnsPerHost =
            (if MaxIdleConnsPerHost params = 0 then 100 else MaxIdleConnsPerHost params);
          client =
            \<lparr>baseUrl = BaseUrl params,
             errorHandler = ErrorHandler params,
             isError = IsError params,
             headers = HttpClientParamsOf.Headers params,
             httpClient2 =
               \<lparr>http_Client.Timeout = HttpClientParamsOf.Timeout params,
                TransportMaxIdleConnsPerHost = transportMaxIdleConnsPerHost\<rparr>,
             requestPayloadEncoder = HttpClientParamsOf.RequestPayloadEncoder params,
             requestPayloadDecoder = HttpClientParamsOf.RequestPayloadDecoder params,
             contextRequestId = ContextRequestId params,
             headerKeyRequestID = HeaderKeyRequestID params,
             debugMode = DebugMode params\<rparr>;
          client =
            (case requestPayloadEncoder client of
               None \<Rightarrow> client\<lparr>requestPayloadEncoder := Some (JsonEncoder (json_quote lib))\<rparr>
             | Some encoder \<Rightarrow> client);
          client =
            (case requestPayloadDecoder client of
               None \<Rightarrow> client\<lparr>requestPayloadDecoder := Some (JsonDecoder (json_Decode lib))\<rparr>
             | Some decoder \<Rightarrow> client)
      in client)"

definition SetHeaders :: "'m HttpClientOf \<Rightarrow> 'm \<Rightarrow> 'm HttpClientOf" where
  "SetHeaders c hs = c\<lparr>headers := hs\<rparr>"

text \<open>
  The callback receives pointers to the request and to the response and may change
  both; what it does to the response it returns (the request is not used again).
\<close>

record RequestOptions =
  Ctx :: "Context option"
  Method :: string
  Url :: string
  Headers :: "(string \<times> string) list"
  Payload :: iface
  Result :: "iface option"
  RequestPayloadEncoder :: "DataEncoder option"
  RequestPayloadDecoder :: "DataDecoder option"
  UrlParams :: "(string \<times> string) list"
  AfterCallback :: "(Request \<Rightarrow> Response \<Rightarrow> Response) option"

definition setDefaultOptions :: "HttpClient \<Rightarrow> RequestOptions \<Rightarrow> RequestOptions" where
  \<comment> \<open>the pointer \<open>opt\<close> is the address of a local variable, never nil\<close>
  "setDefaultOptions c opt =
     (let opt = (case RequestOptions.Ctx opt of
                   None \<Rightarrow> opt\<lparr>RequestOptions.Ctx := Some Background\<rparr>
                 | Some ctx \<Rightarrow> opt);
          opt = (if RequestOptions.Method opt = []
                 then opt\<lparr>RequestOptions.Method := ''GET''\<rparr> else opt);
          opt = (case RequestOptions.RequestPayloadEncoder opt of
                   None \<Rightarrow> opt\<lparr>RequestOptions.RequestPayloadEncoder := requestPayloadEncoder c\<rparr>
                 | Some encoder \<Rightarrow> opt);
          opt = (case RequestOptions.RequestPayloadDecoder opt of
                   None \<Rightarrow> opt\<lparr>RequestOptions.RequestPayloadDecoder := requestPayloadDecoder c\<rparr>
                 | Some decoder \<Rightarrow> opt)
      in opt)"

definition defaultIsError :: "HttpClient \<Rightarrow> Response \<Rightarrow> bool" where
  "defaultIsError c resp = (StatusCode resp < 200 \<or> StatusCode resp \<ge> 400)"

definition fromContextRequestId :: "HttpClient \<Rightarrow> Context \<Rightarrow> string \<times> bool" where
  \<comment> \<open>the type assertion \<open>.(string)\<close>: the zero string and false on any other value\<close>
  "fromContextRequestId c ctx =
     (case ctx (contextRequestId c) of VString u \<Rightarrow> (u, True) | _ \<Rightarrow> ([], False))"

definition defaultErrorHandler :: "HttpClient \<Rightarrow> string \<Rightarrow> go_error + go_error option" where
  \<comment> \<open>\<open>Inl\<close> is the value the function panics with, \<open>Inr\<close> the error it returns\<close>
  "defaultErrorHandler c reader =
     (case errorHandler c of
        Some handler \<Rightarrow> Inr (handler reader)
      | None \<Rightarrow>
          (case requestPayloadDecoder c of
             None \<Rightarrow> Inl nilDereference
           | Some decode \<Rightarrow>
               (case intoErr decode reader zeroErr of
                  (Some err, e) \<Rightarrow> Inl err
                | (None, e) \<Rightarrow> Inr (Some (ErrValue e)))))"


section \<open>The request executor\<close>

text \<open>
  What one call of \<open>DoRequestWithOptions\<close> does and gives: the requests handed to the
  transport, the invocations of the callback with their arguments, the target
  \<open>Result\<close> as the call leaves it, the outcome (a panic or the returned pair), and
  the receiver as the call leaves it. The method has a pointer receiver; no statement
  of its body, and none of the methods it calls, assigns to a field of the receiver or
  writes to its header map.
\<close>

datatype outcome = Panic go_error | Return "Response option" "go_error option"

record result =
  sent :: "Request list"
  callbacks :: "(Request \<times> Response) list"
  target :: "iface option"
  outcome :: outcome
  receiver :: HttpClient

definition requestBody :: "RequestOptions \<Rightarrow> outcome + string option \<times> string" where
  \<comment> \<open>the encoding of the payload and its copy for the callback; gives the reader of the
      body and \<open>reqBuffer\<close>. Copying from a nil reader panics; a reader being its
      bytes, the copy has no read error to return.\<close>
  "requestBody options =
     (case RequestOptions.RequestPayloadEncoder options of
        None \<Rightarrow> Inl (Panic nilDereference)
      | Some encoder \<Rightarrow>
          (case encoder (Payload options) of
             (payloadReader, Some err) \<Rightarrow>
               Inl (Return None (Some (Wrap (Errorf ''requestPayloadEncoder'') (Some err))))
           | (payloadReader, None) \<Rightarrow>
               (case AfterCallback options of
                  None \<Rightarrow> Inr (payloadReader, [])
                | Some callback \<Rightarrow>
                    (case payloadReader of
                       None \<Rightarrow> Inl (Panic nilDereference)
                     | Some b \<Rightarrow> Inr (Some b, b)))))"

definition setRequestId :: "HttpClient \<Rightarrow> Context option \<Rightarrow> Header \<Rightarrow> Header" where
  "setRequestId c ctx h =
     (case ctx of
        None \<Rightarrow> h
      | Some ctx' \<Rightarrow>
          (case fromContextRequestId c ctx' of
             (requestID, has) \<Rightarrow>
               if has then Header_Set h (headerKeyRequestID c) requestID else h))"

definition setAll :: "Header \<Rightarrow> (string \<times> string) list \<Rightarrow> Header" where
  \<comment> \<open>\<open>for i, v := range m { req.Header.Set(i, v) }\<close>\<close>
  "setAll h m = foldl (\<lambda>h' (i, v). Header_Set h' i v) h m"

definition setHeader :: "HttpClient \<Rightarrow> RequestOptions \<Rightarrow> Header \<Rightarrow> Header" where
  "setHeader c options h =
     (let h = Header_Set h ''Accept'' ''application/json; charset=utf-8'';
          h = setRequestId c (RequestOptions.Ctx options) h;
          h = setAll h (headers c);
          h = setAll h (RequestOptions.Headers options)
      in h)"

definition newRequest :: "stdlib \<Rightarrow> HttpClient \<Rightarrow> RequestOptions \<Rightarrow>
    outcome + Request \<times> string" where
  \<comment> \<open>everything before the round trip: the request handed to the transport and
      \<open>reqBuffer\<close>, or the early outcome\<close>
  "newRequest lib c options =
     (case requestBody options of
        Inl early \<Rightarrow> Inl early
      | Inr (payloadReader, reqBuffer) \<Rightarrow>
          (case NewRequestWithContext lib (RequestOptions.Ctx options)
                  (RequestOptions.Method options) (baseUrl c @ Url options) payloadReader of
             Inl err \<Rightarrow>
               Inl (Return None (Some (Wrap (Errorf ''new request with context'') (Some err))))
           | Inr req \<Rightarrow>
               Inr (req\<lparr>Query := Query req @ UrlParams options,
                        Header := setHeader c options (Header req)\<rparr>, reqBuffer)))"

definition debugWrap :: "stdlib \<Rightarrow> HttpClient \<Rightarrow> string \<Rightarrow> go_error \<Rightarrow> go_error" where
  "debugWrap lib c curl err =
     (if debugMode c
      then Wrap (Errorf (requestTook lib)) (Some (Wrap (Errorf (''curl: '' @ curl)) (Some err)))
      else err)"

definition afterCallback :: "RequestOptions \<Rightarrow> Request \<Rightarrow> string \<Rightarrow> Response \<Rightarrow>
    (Request \<times> Response) list \<times> Response" where
  \<comment> \<open>the invocations made and the response as the callback leaves it\<close>
  "afterCallback options req reqBuffer resp =
     (case AfterCallback options of
        None \<Rightarrow> ([], resp)
      | Some callback \<Rightarrow>
          (let req' = req\<lparr>Request.Body := Some reqBuffer\<rparr>
           in ([(req', resp)], callback req' resp)))"

definition handleResponse :: "stdlib \<Rightarrow> HttpClient \<Rightarrow> RequestOptions \<Rightarrow> string \<Rightarrow>
    Response \<Rightarrow> iface option \<times> outcome" where
  \<comment> \<open>from the classification to the end: the target and the outcome. The wraps made in
      debug mode before the status error are overwritten by it, as in the source.\<close>
  "handleResponse lib c options curl resp =
     (if defaultIsError c resp then
        (case defaultErrorHandler c (Response.Body resp) of
           Inl v \<Rightarrow> (Result options, Panic v)
         | Inr e \<Rightarrow>
             (Result options,
              Return None (Some (Wrap
                (Errorf (''http status code='' @ itoa (StatusCode resp) @ '' curl'')) e))))
      else
        (case Result options of
           None \<Rightarrow> (None, Return (Some resp) None)
         | Some res \<Rightarrow>
             (case RequestOptions.RequestPayloadDecoder options of
                None \<Rightarrow> (Some res, Panic nilDereference)
              | Some decode \<Rightarrow>
                  (case intoResult decode (Response.Body resp) res of
                     (Some err, res') \<Rightarrow>
                       (Some res',
                        Return None (Some (Wrap (Errorf ''decode resp.Body'')
                          (Some (debugWrap lib c curl err)))))
                   | (None, res') \<Rightarrow> (Some res', Return (Some resp) None)))))"

definition DoRequestWithOptions :: "stdlib \<Rightarrow> HttpClient \<Rightarrow> RequestOptions \<Rightarrow> result" where
  "DoRequestWithOptions lib c options0 =
     (let options = setDefaultOptions c options0 in
      case newRequest lib c options of
        Inl early \<Rightarrow>
          \<lparr>sent = [], callbacks = [], target = Result options, outcome = early,
           receiver = c\<rparr>
      | Inr (req, reqBuffer) \<Rightarrow>
          (let curl = (if debugMode c then GetCurlCommand lib req else []) in
           case Do lib (httpClient2 c) req of
             Inl err \<Rightarrow>
               \<lparr>sent = [req], callbacks = [], target = Result options,
                outcome = Return None (Some (Wrap (Errorf ''do http request'')
                            (Some (debugWrap lib c curl err)))),
                receiver = c\<rparr>
           | Inr resp \<Rightarrow>
               (case afterCallback options req reqBuffer resp of
                  (calls, resp') \<Rightarrow>
                    (case handleResponse lib c options curl resp' of
                       (res, out) \<Rightarrow>
                         \<lparr>sent = [req], callbacks = calls, target = res, outcome = out,
                          receiver = c\<rparr>))))"

definition DoRequest :: "stdlib \<Rightarrow> HttpClient \<Rightarrow> Context option \<Rightarrow> string \<Rightarrow> string \<Rightarrow>
    (string \<times> string) list \<Rightarrow> iface \<Rightarrow> iface option \<Rightarrow> result" where
  "DoRequest lib c ctx method url hs payload res =
     DoRequestWithOptions lib c
       \<lparr>RequestOptions.Ctx = ctx, RequestOptions.Method = method, Url = url,
        RequestOptions.Headers = hs, Payload = payload, Result = res,
        RequestOptions.RequestPayloadEncoder = None,
        RequestOptions.RequestPayloadDecoder = None,
        UrlParams = [], AfterCallback = None\<rparr>"


definition GetRequest :: "stdlib \<Rightarrow> HttpClient \<Rightarrow> Context option \<Rightarrow> string \<Rightarrow>
    (string \<times> string) list \<Rightarrow> iface option \<Rightarrow> result" where
  "GetRequest lib c ctx url hs res = DoRequest lib c ctx ''GET'' url hs VNil res"


section \<open>The header map in memory\<close>






section \<open>The setting of the package's tests\<close>

text \<open>
  The client of \<open>TestMain\<close>, the server's default handler \<open>http.NotFound\<close>, and a
  library around a server that answers every request with one given response. The
  decoders of that library reject every stream, which is what they do with the body
  of \<open>http.NotFound\<close>.
\<close>

definition someError :: go_error where
  "someError = Errorf ''some error''"

definition someErrorHandler :: "string \<Rightarrow> go_error option" where
  "someErrorHandler reader = Some someError"

definition testParams :: HttpClientParams where
  "testParams =
     \<lparr>BaseUrl = ''http://127.0.0.1:8080'',
      ErrorHandler = Some someErrorHandler,
      IsError = None,
      HttpClientParamsOf.Headers = [],
      HttpClientParamsOf.Timeout = 1000000000,
      HttpClientParamsOf.RequestPayloadEncoder = None,
      HttpClientParamsOf.RequestPayloadDecoder = None,
      MaxIdleConnsPerHost = 0,
      ContextRequestId = ''0'',
      HeaderKeyRequestID = ''X-Request-Id'',
      DebugMode = True\<rparr>"

definition notFound :: Response where
  "notFound = \<lparr>StatusCode = 404, Response.Body = ''404 page not found'' @ [CHR 0x0A]\<rparr>"

definition rejects :: "'e \<Rightarrow> 'e decoder" where
  \<comment> \<open>a decoder that fails with \<open>err\<close> and leaves its target alone\<close>
  "rejects err = \<lparr>intoErr = (\<lambda>reader res. (Some err, res)),
                  intoResult = (\<lambda>reader res. (Some err, res))\<rparr>"

definition reads :: "Err \<Rightarrow> 'e decoder" where
  \<comment> \<open>a decoder that finds the error \<open>e\<close> in every stream\<close>
  "reads e = \<lparr>intoErr = (\<lambda>reader res. (None, e)),
              intoResult = (\<lambda>reader res. (None, res))\<rparr>"

definition doubleQuoted :: "string \<Rightarrow> string" where
  "doubleQuoted s = CHR 0x22 # s @ [CHR 0x22]"

definition unsupported :: "iface \<Rightarrow> string + string" where
  "unsupported v = Inl ''gob: type not registered''"

definition wellFormed :: "string \<Rightarrow> string \<Rightarrow> go_error option" where
  "wellFormed method url = None"

definition curlOf :: "Request \<Rightarrow> string" where
  "curlOf req = ''curl -X '' @ Request.Method req @ '' '' @ URL req"

definition answering :: "Response \<Rightarrow> http_Client \<Rightarrow> Request \<Rightarrow> go_error + Response" where
  "answering resp client req = Inr resp"

definition testLibrary :: "Response \<Rightarrow> stdlib" where
  "testLibrary resp =
     \<lparr>json_quote = doubleQuoted,
      json_Decode = rejects ''invalid character'',
      gob_Encode = unsupported,
      gob_Decode = rejects ''unexpected EOF'',
      request_error = wellFormed,
      GetCurlCommand = curlOf,
      requestTook = ''request took 1.000000 microseconds'',
      Do = answering resp\<rparr>"

definition neverAnError :: "Response \<Rightarrow> bool" where
  \<comment> \<open>a custom classifier: no response is an error\<close>
  "neverAnError resp = False"

definition observe :: "Request \<Rightarrow> Response \<Rightarrow> Response" where
  \<comment> \<open>a callback that leaves the response as it is\<close>
  "observe req resp = resp"

definition markOK :: "Request \<Rightarrow> Response \<Rightarrow> Response" where
  \<comment> \<open>a callback that overwrites the status of the response\<close>
  "markOK req resp = resp\<lparr>StatusCode := 200\<rparr>"

definition getOptions :: RequestOptions where
  \<comment> \<open>the call of \<open>TestError404\<close>\<close>
  "getOptions =
     \<lparr>RequestOptions.Ctx = Some Background, RequestOptions.Method = ''GET'',
      Url = ''/herrnotfound404'', RequestOptions.Headers = [], Payload = VNil,
      Result = None, RequestOptions.RequestPayloadEncoder = None,
      RequestOptions.RequestPayloadDecoder = None, UrlParams = [],
      AfterCallback = None\<rparr>"

definition testClient :: HttpClient where
  "testClient = NewHttpClient (testLibrary notFound) testParams"

definition bareClient :: HttpClient where
  \<comment> \<open>the same client without an error handler of its own\<close>
  "bareClient = NewHttpClient (testLibrary notFound) (testParams\<lparr>ErrorHandler := None\<rparr>)"

definition plainClient :: "DataDecoder \<Rightarrow> HttpClient" where
  \<comment> \<open>without an error handler, and with a given decoder as the client's default\<close>
  "plainClient decode =
     NewHttpClient (testLibrary notFound)
       (testParams\<lparr>ErrorHandler := None,
                   HttpClientParamsOf.RequestPayloadDecoder := Some decode\<rparr>)"

definition clientError :: Err where
  "clientError = NewErr 1 ''read by the client decoder'' VNil"

definition callError :: Err where
  "callError = NewErr 2 ''read by the call decoder'' VNil"

definition notFoundRequest :: Request where
  \<comment> \<open>the request that the call of \<open>TestError404\<close> hands to the transport\<close>
  "notFoundRequest =
     \<lparr>Request.Ctx = Background, Request.Method = ''GET'',
      URL = ''http://127.0.0.1:8080/herrnotfound404'', Query = [],
      Header = [''Accept'' \<mapsto> [''application/json; charset=utf-8'']],
      Request.Body = Some ''null''\<rparr>"



definition withRequestId :: "iface \<Rightarrow> Context" where
  \<comment> \<open>\<open>context.WithValue(context.Background(), "0", v)\<close>\<close>
  "withRequestId v = (\<lambda>key. if key = ''0'' then v else VNil)"

definition requestIdOptions :: "iface \<Rightarrow> RequestOptions" where
  "requestIdOptions v = getOptions\<lparr>RequestOptions.Ctx := Some (withRequestId v)\<rparr>"

section \<open>Unfolding and evaluation\<close>

lemmas fixture_defs = testLibrary_def testParams_def notFound_def getOptions_def
  answering_def wellFormed_def curlOf_def someErrorHandler_def someError_def
  neverAnError_def observe_def rejects_def reads_def doubleQuoted_def unsupported_def
  testClient_def bareClient_def plainClient_def clientError_def callError_def
  notFoundRequest_def withRequestId_def requestIdOptions_def

lemmas executor_defs = DoRequestWithOptions_def newRequest_def requestBody_def
  NewRequestWithContext_def setHeader_def setAll_def setRequestId_def fromContextRequestId_def
  setDefaultOptions_def handleResponse_def afterCallback_def defaultIsError_def
  defaultErrorHandler_def debugWrap_def NewHttpClient_def JsonEncoder_def JsonDecoder_def
  decodeWith_def Header_Set_def Background_def

lemmas string_defs = CanonicalMIMEHeaderKey_def validHeaderFieldByte_def lowers_def uppers_def
  toUpper_def toLower_def itoa_def digits.simps digit_def Let_def

subsection \<open>What the defaults leave alone\<close>

lemma setDefaultOptions_AfterCallback [simp]:
  "AfterCallback (setDefaultOptions c options) = AfterCallback options"
  by (simp add: setDefaultOptions_def Let_def split: option.split)

lemma setDefaultOptions_Result [simp]:
  "Result (setDefaultOptions c options) = Result options"
  by (simp add: setDefaultOptions_def Let_def split: option.split)

lemma setDefaultOptions_Headers [simp]:
  "RequestOptions.Headers (setDefaultOptions c options) = RequestOptions.Headers options"
  by (simp add: setDefaultOptions_def Let_def split: option.split)

lemma setDefaultOptions_Ctx:
  "RequestOptions.Ctx (setDefaultOptions c options) =
     Some (case RequestOptions.Ctx options of None \<Rightarrow> Background | Some ctx \<Rightarrow> ctx)"
  by (simp add: setDefaultOptions_def Let_def split: option.split)

lemma setDefaultOptions_Decoder:
  "RequestOptions.RequestPayloadDecoder (setDefaultOptions c options) =
     (case RequestOptions.RequestPayloadDecoder options of
        None \<Rightarrow> requestPayloadDecoder c | Some decode \<Rightarrow> Some decode)"
  by (simp add: setDefaultOptions_def Let_def split: option.split)

lemma afterCallback_setDefaultOptions [simp]:
  "afterCallback (setDefaultOptions c options) = afterCallback options"
  by (intro ext) (simp add: afterCallback_def)

subsection \<open>The executor before and after the round trip\<close>

lemma DoRequestWithOptions_early:
  assumes "newRequest lib c (setDefaultOptions c options) = Inl early"
  shows "DoRequestWithOptions lib c options =
           \<lparr>sent = [], callbacks = [], target = Result options, outcome = early,
            receiver = c\<rparr>"
  using assms by (simp add: DoRequestWithOptions_def)

lemma DoRequestWithOptions_failed:
  assumes "newRequest lib c (setDefaultOptions c options) = Inr (req, reqBuffer)"
    and "Do lib (httpClient2 c) req = Inl err"
  shows "sent (DoRequestWithOptions lib c options) = [req]"
    and "callbacks (DoRequestWithOptions lib c options) = []"
  using assms by (simp_all add: DoRequestWithOptions_def Let_def)

lemma DoRequestWithOptions_received:
  assumes "newRequest lib c (setDefaultOptions c options) = Inr (req, reqBuffer)"
    and "Do lib (httpClient2 c) req = Inr resp0"
  shows "sent (DoRequestWithOptions lib c options) = [req]"
    and "callbacks (DoRequestWithOptions lib c options) =
           fst (afterCallback options req reqBuffer resp0)"
    and "outcome (DoRequestWithOptions lib c options) =
           snd (handleResponse lib c (setDefaultOptions c options)
                  (if debugMode c then GetCurlCommand lib req else [])
                  (snd (afterCallback options req reqBuffer resp0)))"
  using assms by (simp_all add: DoRequestWithOptions_def Let_def split: prod.split)

lemma handleResponse_error:
  assumes "defaultIsError c resp"
  shows "snd (handleResponse lib c options curl resp) =
           (case defaultErrorHandler c (Response.Body resp) of
              Inl v \<Rightarrow> Panic v
            | Inr e \<Rightarrow> Return None (Some (Wrap
                (Errorf (''http status code='' @ itoa (StatusCode resp) @ '' curl'')) e)))"
  using assms by (simp add: handleResponse_def split: sum.split)

lemma sent_cases:
  "sent (DoRequestWithOptions lib c options) =
     (case newRequest lib c (setDefaultOptions c options) of
        Inl early \<Rightarrow> [] | Inr (req, reqBuffer) \<Rightarrow> [req])"
  by (simp add: DoRequestWithOptions_def Let_def split: sum.split prod.split)

lemma callbacks_cases:
  "callbacks (DoRequestWithOptions lib c options) =
     (case newRequest lib c (setDefaultOptions c options) of
        Inl early \<Rightarrow> []
      | Inr (req, reqBuffer) \<Rightarrow>
          (case Do lib (httpClient2 c) req of
             Inl err \<Rightarrow> []
           | Inr resp \<Rightarrow>
               (case AfterCallback options of
                  None \<Rightarrow> []
                | Some callback \<Rightarrow> [(req\<lparr>Request.Body := Some reqBuffer\<rparr>, resp)])))"
  by (simp add: DoRequestWithOptions_def afterCallback_def Let_def
        split: sum.split prod.split option.split)

subsection \<open>Headers\<close>

lemma setAll_other:
  assumes "\<forall>(i, v) \<in> set m. CanonicalMIMEHeaderKey i \<noteq> key"
  shows "setAll h m key = h key"
  using assms unfolding setAll_def
  by (induction m arbitrary: h) (auto simp: Header_Set_def)

lemma newRequest_Header:
  assumes "newRequest lib c options = Inr (req, reqBuffer)"
  shows "Header req = setHeader c options Map.empty"
  using assms
  by (auto simp: newRequest_def NewRequestWithContext_def
        split: sum.splits option.splits prod.splits)

lemma Accept_canonical: "CanonicalMIMEHeaderKey ''Accept'' = ''Accept''"
  by (simp add: string_defs)

lemma setRequestId_other:
  assumes "\<forall>ctx u. ctxo = Some ctx \<longrightarrow> ctx (contextRequestId c) = VString u \<longrightarrow>
             CanonicalMIMEHeaderKey (headerKeyRequestID c) \<noteq> key"
  shows "setRequestId c ctxo h key = h key"
  using assms
  by (auto simp: setRequestId_def fromContextRequestId_def Header_Set_def
        split: option.split iface.split)

subsection \<open>The calls of the tests\<close>

lemma newRequest_getOptions:
  "newRequest (testLibrary notFound) testClient
     (setDefaultOptions testClient (getOptions\<lparr>AfterCallback := cb\<rparr>)) =
     Inr (notFoundRequest, if cb = None then [] else ''null'')"
  by (simp add: fixture_defs executor_defs string_defs split: option.split)

lemma newRequest_plainClient:
  "newRequest (testLibrary notFound) (plainClient d)
     (setDefaultOptions (plainClient d)
        (getOptions\<lparr>RequestOptions.RequestPayloadDecoder := d'\<rparr>)) =
     Inr (notFoundRequest, [])"
  by (simp add: fixture_defs executor_defs string_defs split: option.split)

lemma newRequest_bareClient:
  "newRequest (testLibrary notFound) bareClient (setDefaultOptions bareClient getOptions) =
     Inr (notFoundRequest, [])"
  by (simp add: fixture_defs executor_defs string_defs)

lemma newRequest_requestIdOptions:
  "newRequest (testLibrary notFound) testClient
     (setDefaultOptions testClient (requestIdOptions v)) =
     Inr (notFoundRequest\<lparr>Request.Ctx := withRequestId v,
            Header := setRequestId testClient (Some (withRequestId v))
                        (Header notFoundRequest)\<rparr>, [])"
  by (simp add: fixture_defs executor_defs string_defs)

lemma Do_testLibrary: "Do (testLibrary resp) client req = Inr resp"
  by (simp add: testLibrary_def answering_def)


section \<open>The classifier\<close>

text \<open>
  Claim C7. The default classifier answers "error" exactly for the status codes below
  200 or from 400 on, and "success" exactly for those from 200 to 399; in particular
  every status below 200 is an error.
\<close>

theorem defaultIsError_status_range:
  "(defaultIsError c resp \<longleftrightarrow> StatusCode resp < 200 \<or> 400 \<le> StatusCode resp) \<and>
   (\<not> defaultIsError c resp \<longleftrightarrow> 200 \<le> StatusCode resp \<and> StatusCode resp \<le> 399) \<and>
   (StatusCode resp < 200 \<longrightarrow> defaultIsError c resp)"
  by (auto simp: defaultIsError_def)

theorem defaultIsError_status_range_witness:
  "StatusCode \<lparr>StatusCode = 100, Response.Body = []\<rparr> < 200 \<and>
   defaultIsError testClient \<lparr>StatusCode = 100, Response.Body = []\<rparr>"
  using defaultIsError_status_range
    [of testClient "\<lparr>StatusCode = 100, Response.Body = []\<rparr>"]
  by simp

text \<open>
  The field \<open>isError\<close> is stored by \<open>NewHttpClient\<close> and read nowhere: the executor
  classifies with \<open>defaultIsError\<close>, whatever the field holds.
\<close>

lemma isError_not_read:
  "DoRequestWithOptions lib (c\<lparr>isError := classifier\<rparr>) options =
     (DoRequestWithOptions lib c options)\<lparr>receiver := c\<lparr>isError := classifier\<rparr>\<rparr>"
proof -
  have d: "setDefaultOptions (c\<lparr>isError := classifier\<rparr>) options = setDefaultOptions c options"
    by (simp add: setDefaultOptions_def Let_def split: option.split)
  have n: "newRequest lib (c\<lparr>isError := classifier\<rparr>) = newRequest lib c"
    by (intro ext) (simp add: newRequest_def setHeader_def setRequestId_def fromContextRequestId_def
          Let_def split: sum.split prod.split option.split)
  have h: "handleResponse lib (c\<lparr>isError := classifier\<rparr>) = handleResponse lib c"
    by (intro ext) (simp add: handleResponse_def defaultIsError_def defaultErrorHandler_def
          debugWrap_def split: sum.split prod.split option.split)
  show ?thesis
    by (simp add: DoRequestWithOptions_def d n h debugWrap_def Let_def
          split: sum.split prod.split option.split)
qed

text \<open>
  Claim C1 says that a classifier given at construction decides alone whether a
  response is an error. With a classifier for which no response is an error, the call
  of \<open>TestError404\<close> still fails on the status 404: the classifier is not consulted.
\<close>

theorem custom_IsError_not_consulted:
  "\<not> neverAnError notFound \<and>
   isError (NewHttpClient (testLibrary notFound) (testParams\<lparr>IsError := Some neverAnError\<rparr>)) =
     Some neverAnError \<and>
   outcome (DoRequestWithOptions (testLibrary notFound)
     (NewHttpClient (testLibrary notFound) (testParams\<lparr>IsError := Some neverAnError\<rparr>))
     getOptions) =
   Return None (Some (Wrap (Errorf ''http status code=404 curl'') (Some someError)))"
  by (simp add: fixture_defs executor_defs string_defs)


section \<open>The callback\<close>

text \<open>
  The status 404 is an error for the classifier, and the callback of the call has been
  invoked, with the response: the statement of claim C2, that the callback never fires
  when the response is classified as an error, fails here.
\<close>

theorem afterCallback_on_error_counterexample:
  "defaultIsError testClient notFound \<and>
   map snd (callbacks (DoRequestWithOptions (testLibrary notFound) testClient
     (getOptions\<lparr>AfterCallback := Some observe\<rparr>))) = [notFound]"
  by (simp add: fixture_defs executor_defs string_defs)

text \<open>
  Claim C2, amended. Whenever the transport returns a response and the call has a
  callback, the callback is invoked exactly once, with the request (its body put back
  from the copy) and the response as received. The response is classified only
  afterwards, and as the callback leaves it: what the call gives is what
  \<open>handleResponse\<close> makes of the response returned by the callback, so that the
  callback has also fired when the response is classified as an error. When no
  response is received, because the payload is not encoded, the request is not built
  or the transport fails, the callback is not invoked.
\<close>

theorem afterCallback_after_every_response:
  "(\<forall>early. newRequest lib c (setDefaultOptions c options) = Inl early \<longrightarrow>
      callbacks (DoRequestWithOptions lib c options) = []) \<and>
   (\<forall>req reqBuffer. newRequest lib c (setDefaultOptions c options) = Inr (req, reqBuffer) \<longrightarrow>
      (\<forall>err. Do lib (httpClient2 c) req = Inl err \<longrightarrow>
         callbacks (DoRequestWithOptions lib c options) = []) \<and>
      (\<forall>resp callback.
         Do lib (httpClient2 c) req = Inr resp \<longrightarrow> AfterCallback options = Some callback \<longrightarrow>
         callbacks (DoRequestWithOptions lib c options) =
           [(req\<lparr>Request.Body := Some reqBuffer\<rparr>, resp)] \<and>
         outcome (DoRequestWithOptions lib c options) =
           snd (handleResponse lib c (setDefaultOptions c options)
                  (if debugMode c then GetCurlCommand lib req else [])
                  (callback (req\<lparr>Request.Body := Some reqBuffer\<rparr>) resp)) \<and>
         (defaultIsError c (callback (req\<lparr>Request.Body := Some reqBuffer\<rparr>) resp) \<longrightarrow>
            outcome (DoRequestWithOptions lib c options) =
              (case defaultErrorHandler c
                      (Response.Body (callback (req\<lparr>Request.Body := Some reqBuffer\<rparr>) resp)) of
                 Inl v \<Rightarrow> Panic v
               | Inr e \<Rightarrow> Return None (Some (Wrap
                   (Errorf (''http status code='' @
                      itoa (StatusCode (callback (req\<lparr>Request.Body := Some reqBuffer\<rparr>) resp)) @
                      '' curl'')) e))))))"
proof (intro conjI allI impI)
  fix early
  assume "newRequest lib c (setDefaultOptions c options) = Inl early"
  then show "callbacks (DoRequestWithOptions lib c options) = []"
    by (simp add: DoRequestWithOptions_early)
next
  fix req reqBuffer err
  assume "newRequest lib c (setDefaultOptions c options) = Inr (req, reqBuffer)"
    and "Do lib (httpClient2 c) req = Inl err"
  then show "callbacks (DoRequestWithOptions lib c options) = []"
    by (rule DoRequestWithOptions_failed(2))
next
  fix req reqBuffer resp callback
  assume n: "newRequest lib c (setDefaultOptions c options) = Inr (req, reqBuffer)"
    and d: "Do lib (httpClient2 c) req = Inr resp"
    and a: "AfterCallback options = Some callback"
  let ?req = "req\<lparr>Request.Body := Some reqBuffer\<rparr>"
  have f: "afterCallback options req reqBuffer resp = ([(?req, resp)], callback ?req resp)"
    using a by (simp add: afterCallback_def Let_def)
  show "callbacks (DoRequestWithOptions lib c options) = [(?req, resp)]"
    using DoRequestWithOptions_received(2) [OF n d] f by simp
  show o: "outcome (DoRequestWithOptions lib c options) =
           snd (handleResponse lib c (setDefaultOptions c options)
                  (if debugMode c then GetCurlCommand lib req else [])
                  (callback ?req resp))"
    using DoRequestWithOptions_received(3) [OF n d] f by simp
  assume "defaultIsError c (callback ?req resp)"
  then show "outcome (DoRequestWithOptions lib c options) =
              (case defaultErrorHandler c (Response.Body (callback ?req resp)) of
                 Inl v \<Rightarrow> Panic v
               | Inr e \<Rightarrow> Return None (Some (Wrap
                   (Errorf (''http status code='' @
                      itoa (StatusCode (callback ?req resp)) @ '' curl'')) e)))"
    using o by (simp add: handleResponse_error)
qed

text \<open>
  Two calls answered with the status 404. The first callback leaves the response as it
  is: it is invoked, and the call fails on the status. The second overwrites the status
  with 200: the call succeeds, which it could not if the response were classified
  before the callback is invoked.
\<close>

theorem afterCallback_after_every_response_witness:
  "newRequest (testLibrary notFound) testClient
     (setDefaultOptions testClient (getOptions\<lparr>AfterCallback := Some observe\<rparr>)) =
     Inr (notFoundRequest, ''null'') \<and>
   Do (testLibrary notFound) (httpClient2 testClient) notFoundRequest = Inr notFound \<and>
   defaultIsError testClient (observe (notFoundRequest\<lparr>Request.Body := Some ''null''\<rparr>) notFound) \<and>
   callbacks (DoRequestWithOptions (testLibrary notFound) testClient
     (getOptions\<lparr>AfterCallback := Some observe\<rparr>)) =
     [(notFoundRequest\<lparr>Request.Body := Some ''null''\<rparr>, notFound)] \<and>
   outcome (DoRequestWithOptions (testLibrary notFound) testClient
     (getOptions\<lparr>AfterCallback := Some observe\<rparr>)) =
     Return None (Some (Wrap (Errorf ''http status code=404 curl'') (Some someError))) \<and>
   newRequest (testLibrary notFound) testClient
     (setDefaultOptions testClient (getOptions\<lparr>AfterCallback := Some markOK\<rparr>)) =
     Inr (notFoundRequest, ''null'') \<and>
   callbacks (DoRequestWithOptions (testLibrary notFound) testClient
     (getOptions\<lparr>AfterCallback := Some markOK\<rparr>)) =
     [(notFoundRequest\<lparr>Request.Body := Some ''null''\<rparr>, notFound)] \<and>
   outcome (DoRequestWithOptions (testLibrary notFound) testClient
     (getOptions\<lparr>AfterCallback := Some markOK\<rparr>)) =
     Return (Some (notFound\<lparr>StatusCode := 200\<rparr>)) None"
proof -
  let ?lib = "testLibrary notFound"
  let ?req = "notFoundRequest\<lparr>Request.Body := Some ''null''\<rparr>"
  have n: "\<And>cb. newRequest ?lib testClient
      (setDefaultOptions testClient (getOptions\<lparr>AfterCallback := Some cb\<rparr>)) =
      Inr (notFoundRequest, ''null'')"
    by (simp add: newRequest_getOptions)
  have d: "Do ?lib (httpClient2 testClient) notFoundRequest = Inr notFound"
    by (rule Do_testLibrary)
  have a: "\<And>cb. AfterCallback (getOptions\<lparr>AfterCallback := Some cb\<rparr>) = Some cb"
    by simp
  have i: "defaultIsError testClient (observe ?req notFound)"
    by (simp add: defaultIsError_def notFound_def observe_def)
  have e: "defaultErrorHandler testClient (Response.Body (observe ?req notFound)) =
             Inr (Some someError)"
    by (simp add: defaultErrorHandler_def testClient_def NewHttpClient_def testParams_def
          someErrorHandler_def)
  have s: "itoa (StatusCode (observe ?req notFound)) = ''404''"
    by (simp add: observe_def notFound_def string_defs)
  have h: "\<And>curl. snd (handleResponse ?lib testClient
             (setDefaultOptions testClient (getOptions\<lparr>AfterCallback := Some markOK\<rparr>)) curl
             (markOK ?req notFound)) = Return (Some (notFound\<lparr>StatusCode := 200\<rparr>)) None"
    by (simp add: handleResponse_def defaultIsError_def markOK_def notFound_def getOptions_def)
  have g: "\<And>curl. snd (handleResponse ?lib testClient
             (setDefaultOptions testClient (getOptions\<lparr>AfterCallback := Some observe\<rparr>)) curl
             (observe ?req notFound)) =
             Return None (Some (Wrap (Errorf ''http status code=404 curl'') (Some someError)))"
    using i e s by (simp add: handleResponse_error)
  show ?thesis
    using afterCallback_after_every_response
            [of ?lib testClient "getOptions\<lparr>AfterCallback := Some observe\<rparr>"]
          afterCallback_after_every_response
            [of ?lib testClient "getOptions\<lparr>AfterCallback := Some markOK\<rparr>"]
          n d a i g h
    by simp
qed


section \<open>The body of an error response\<close>

text \<open>
  A response classified as an error, on a client without an error handler of its own:
  the body is given to the decoder of the client, and the call panics or returns
  according to what that decoder says. Here \<open>resp\<close> is the response as the callback,
  if there is one, leaves it.
\<close>

lemma error_path:
  assumes "newRequest lib c (setDefaultOptions c options) = Inr (req, reqBuffer)"
    and "Do lib (httpClient2 c) req = Inr resp0"
    and "resp = snd (afterCallback options req reqBuffer resp0)"
    and "defaultIsError c resp"
    and "errorHandler c = None"
    and "requestPayloadDecoder c = Some decode"
  shows "outcome (DoRequestWithOptions lib c options) =
           (case intoErr decode (Response.Body resp) zeroErr of
              (Some err, e) \<Rightarrow> Panic err
            | (None, e) \<Rightarrow> Return None (Some (Wrap
                (Errorf (''http status code='' @ itoa (StatusCode resp) @ '' curl''))
                (Some (ErrValue e)))))"
  using DoRequestWithOptions_received(3) [OF assms(1,2)] assms(3-6)
  by (simp add: handleResponse_error defaultErrorHandler_def split: prod.split option.split)

text \<open>
  The call below has a decoder of its own, which would read \<open>callError\<close> from the
  body. The error returned is \<open>clientError\<close>, read by the decoder of the client: the
  statement of claim C3, that the decoder of the call is used when there is one, fails
  here.
\<close>

theorem error_body_decoder_counterexample:
  "RequestOptions.RequestPayloadDecoder
     (setDefaultOptions (plainClient (reads clientError))
        (getOptions\<lparr>RequestOptions.RequestPayloadDecoder := Some (reads callError)\<rparr>)) =
     Some (reads callError) \<and>
   intoErr (reads callError :: DataDecoder) (Response.Body notFound) zeroErr =
     (None, callError) \<and>
   outcome (DoRequestWithOptions (testLibrary notFound) (plainClient (reads clientError))
     (getOptions\<lparr>RequestOptions.RequestPayloadDecoder := Some (reads callError)\<rparr>)) =
     Return None (Some (Wrap (Errorf ''http status code=404 curl'')
       (Some (ErrValue clientError)))) \<and>
   clientError \<noteq> callError"
  by (simp add: NewErr_def fixture_defs executor_defs string_defs)

text \<open>
  Claim C3, amended. When the response is classified as an error and the client has no
  error handler of its own, the body is decoded into an \<open>Err\<close> by the default decoder
  of the client, whether or not the call gives a decoder of its own; the call returns
  the status error wrapping that \<open>Err\<close>.
\<close>

theorem error_body_decoded_by_client_decoder:
  assumes "newRequest lib c (setDefaultOptions c options) = Inr (req, reqBuffer)"
    and "Do lib (httpClient2 c) req = Inr resp0"
    and "resp = snd (afterCallback options req reqBuffer resp0)"
    and "defaultIsError c resp"
    and "errorHandler c = None"
    and "requestPayloadDecoder c = Some decode"
    and "intoErr decode (Response.Body resp) zeroErr = (None, e)"
  shows "outcome (DoRequestWithOptions lib c options) =
           Return None (Some (Wrap
             (Errorf (''http status code='' @ itoa (StatusCode resp) @ '' curl''))
             (Some (ErrValue e))))"
  using error_path [OF assms(1-6)] assms(7) by simp

theorem error_body_decoded_by_client_decoder_witness:
  "newRequest (testLibrary notFound) (plainClient (reads clientError))
     (setDefaultOptions (plainClient (reads clientError))
        (getOptions\<lparr>RequestOptions.RequestPayloadDecoder := Some (reads callError)\<rparr>)) =
     Inr (notFoundRequest, []) \<and>
   Do (testLibrary notFound) (httpClient2 (plainClient (reads clientError))) notFoundRequest =
     Inr notFound \<and>
   defaultIsError (plainClient (reads clientError)) notFound \<and>
   errorHandler (plainClient (reads clientError)) = None \<and>
   requestPayloadDecoder (plainClient (reads clientError)) = Some (reads clientError) \<and>
   intoErr (reads clientError :: DataDecoder) (Response.Body notFound) zeroErr =
     (None, clientError) \<and>
   outcome (DoRequestWithOptions (testLibrary notFound) (plainClient (reads clientError))
     (getOptions\<lparr>RequestOptions.RequestPayloadDecoder := Some (reads callError)\<rparr>)) =
     Return None (Some (Wrap (Errorf ''http status code=404 curl'')
       (Some (ErrValue clientError))))"
proof -
  let ?c = "plainClient (reads clientError)"
  let ?o = "getOptions\<lparr>RequestOptions.RequestPayloadDecoder := Some (reads callError)\<rparr>"
  have n: "newRequest (testLibrary notFound) ?c (setDefaultOptions ?c ?o) =
             Inr (notFoundRequest, [])"
    by (rule newRequest_plainClient)
  have d: "Do (testLibrary notFound) (httpClient2 ?c) notFoundRequest = Inr notFound"
    by (rule Do_testLibrary)
  have r: "notFound = snd (afterCallback ?o notFoundRequest [] notFound)"
    by (simp add: afterCallback_def getOptions_def)
  have i: "defaultIsError ?c notFound"
    by (simp add: defaultIsError_def notFound_def)
  have h: "errorHandler ?c = None"
    by (simp add: plainClient_def NewHttpClient_def testParams_def)
  have p: "requestPayloadDecoder ?c = Some (reads clientError)"
    by (simp add: plainClient_def NewHttpClient_def testParams_def)
  have e: "intoErr (reads clientError :: DataDecoder) (Response.Body notFound) zeroErr =
             (None, clientError)"
    by (simp add: reads_def)
  have s: "itoa (StatusCode notFound) = ''404''"
    by (simp add: notFound_def string_defs)
  show ?thesis
    using error_body_decoded_by_client_decoder [OF n d r i h p e] n d i h p e s by simp
qed

text \<open>
  Claim C6. When the response is classified as an error, the client has no error
  handler of its own and decoding the body into an \<open>Err\<close> fails, the executor panics
  with the decoder's error instead of returning it.
\<close>

theorem error_body_decode_failure_panics:
  assumes "newRequest lib c (setDefaultOptions c options) = Inr (req, reqBuffer)"
    and "Do lib (httpClient2 c) req = Inr resp0"
    and "resp = snd (afterCallback options req reqBuffer resp0)"
    and "defaultIsError c resp"
    and "errorHandler c = None"
    and "requestPayloadDecoder c = Some decode"
    and "intoErr decode (Response.Body resp) zeroErr = (Some err, e)"
  shows "outcome (DoRequestWithOptions lib c options) = Panic err"
  using error_path [OF assms(1-6)] assms(7) by simp

theorem error_body_decode_failure_panics_witness:
  "newRequest (testLibrary notFound) bareClient (setDefaultOptions bareClient getOptions) =
     Inr (notFoundRequest, []) \<and>
   Do (testLibrary notFound) (httpClient2 bareClient) notFoundRequest = Inr notFound \<and>
   defaultIsError bareClient notFound \<and>
   errorHandler bareClient = None \<and>
   requestPayloadDecoder bareClient = Some (JsonDecoder (rejects ''invalid character'')) \<and>
   intoErr (JsonDecoder (rejects ''invalid character'')) (Response.Body notFound) zeroErr =
     (Some (Errorf ''json dec.Decode: invalid character''), zeroErr) \<and>
   outcome (DoRequestWithOptions (testLibrary notFound) bareClient getOptions) =
     Panic (Errorf ''json dec.Decode: invalid character'')"
proof -
  let ?d = "JsonDecoder (rejects ''invalid character'')"
  have n: "newRequest (testLibrary notFound) bareClient
             (setDefaultOptions bareClient getOptions) = Inr (notFoundRequest, [])"
    by (rule newRequest_bareClient)
  have d: "Do (testLibrary notFound) (httpClient2 bareClient) notFoundRequest = Inr notFound"
    by (rule Do_testLibrary)
  have r: "notFound = snd (afterCallback getOptions notFoundRequest [] notFound)"
    by (simp add: afterCallback_def getOptions_def)
  have i: "defaultIsError bareClient notFound"
    by (simp add: defaultIsError_def notFound_def)
  have h: "errorHandler bareClient = None"
    by (simp add: bareClient_def NewHttpClient_def testParams_def)
  have p: "requestPayloadDecoder bareClient = Some ?d"
    by (simp add: bareClient_def NewHttpClient_def testParams_def testLibrary_def)
  have e: "intoErr ?d (Response.Body notFound) zeroErr =
             (Some (Errorf ''json dec.Decode: invalid character''), zeroErr)"
    by (simp add: JsonDecoder_def decodeWith_def rejects_def)
  show ?thesis
    using error_body_decode_failure_panics [OF n d r i h p e] n d i h p e by simp
qed


section \<open>The error value and the encoders\<close>

text \<open>
  Claim C9. For two errors built by \<open>NewErr\<close>, \<open>Is\<close> holds if and only if the codes
  are equal, whatever the messages and the metadata.
\<close>

theorem Is_iff_codes_equal:
  "Is (NewErr code1 message1 meta1) (Some (ErrValue (NewErr code2 message2 meta2))) \<longleftrightarrow>
     code1 = code2"
  by (simp add: Is_def NewErr_def)

text \<open>
  Claim C4 says that both encoders give an empty or absent stream for a nil payload.
  \<open>GobEncoder\<close> does, by its guard. \<open>JsonEncoder\<close> has no such guard and hands nil to
  \<open>json.Marshal\<close>: the stream holds the four bytes \<open>null\<close>, and they are the body of
  the request that \<open>GetRequest\<close> sends.
\<close>

theorem JsonEncoder_nil_payload:
  "JsonEncoder quote VNil = (Some ''null'', None) \<and> GobEncoder enc VNil = (None, None) \<and>
   map Request.Body (sent (GetRequest (testLibrary notFound) testClient (Some Background)
      ''/herrnotfound404'' [] None)) = [Some ''null'']"
  by (simp add: JsonEncoder_def GobEncoder_def GetRequest_def DoRequest_def sent_cases
        newRequest_getOptions [of None, unfolded getOptions_def, simplified]
        notFoundRequest_def)


section \<open>The configuration of a client\<close>






section \<open>The header of the outgoing request\<close>

text \<open>
  A header \<open>Accept\<close> given with the call replaces the fixed one: the statement of claim
  C8, that the fixed value is sent regardless of the headers supplied, fails here.
\<close>

theorem Accept_header_counterexample:
  "sent (DoRequestWithOptions (testLibrary notFound) testClient
     (getOptions\<lparr>RequestOptions.Headers := [(''Accept'', ''text/plain'')]\<rparr>)) \<noteq> [] \<and>
   Header (hd (sent (DoRequestWithOptions (testLibrary notFound) testClient
     (getOptions\<lparr>RequestOptions.Headers := [(''Accept'', ''text/plain'')]\<rparr>)))) ''Accept'' =
     Some [''text/plain'']"
  by (simp add: fixture_defs executor_defs string_defs)

text \<open>
  Claim C8, amended. Every request handed to the transport carries
  \<open>Accept: application/json; charset=utf-8\<close>, whichever codecs are configured,
  provided that no default header of the client and no header of the call has the
  canonical name \<open>Accept\<close>, and that the request-id header is not named so when the
  context carries a request id.
\<close>

theorem Accept_header_unless_overridden:
  assumes "\<forall>(i, v) \<in> set (headers c @ RequestOptions.Headers options).
             CanonicalMIMEHeaderKey i \<noteq> ''Accept''"
    and "\<forall>ctx u. RequestOptions.Ctx options = Some ctx \<longrightarrow>
           ctx (contextRequestId c) = VString u \<longrightarrow>
           CanonicalMIMEHeaderKey (headerKeyRequestID c) \<noteq> ''Accept''"
  shows "\<forall>req \<in> set (sent (DoRequestWithOptions lib c options)).
           Header req ''Accept'' = Some [''application/json; charset=utf-8'']"
proof
  fix req
  assume "req \<in> set (sent (DoRequestWithOptions lib c options))"
  then obtain reqBuffer
    where n: "newRequest lib c (setDefaultOptions c options) = Inr (req, reqBuffer)"
    by (cases "newRequest lib c (setDefaultOptions c options)") (auto simp: sent_cases)
  let ?ctx = "RequestOptions.Ctx (setDefaultOptions c options)"
  let ?h0 = "Header_Set Map.empty ''Accept'' ''application/json; charset=utf-8''"
  have r: "\<forall>ctx u. ?ctx = Some ctx \<longrightarrow> ctx (contextRequestId c) = VString u \<longrightarrow>
             CanonicalMIMEHeaderKey (headerKeyRequestID c) \<noteq> ''Accept''"
    using assms(2) by (auto simp: setDefaultOptions_Ctx Background_def split: option.splits)
  have a: "\<forall>(i, v) \<in> set (headers c). CanonicalMIMEHeaderKey i \<noteq> ''Accept''"
    and b: "\<forall>(i, v) \<in> set (RequestOptions.Headers options).
              CanonicalMIMEHeaderKey i \<noteq> ''Accept''"
    using assms(1) by auto
  have "Header req ''Accept'' = setHeader c (setDefaultOptions c options) Map.empty ''Accept''"
    using newRequest_Header [OF n] by simp
  also have "\<dots> = setRequestId c ?ctx ?h0 ''Accept''"
    by (simp add: setHeader_def Let_def setAll_other [OF a] setAll_other [OF b])
  also have "\<dots> = ?h0 ''Accept''"
    by (rule setRequestId_other [OF r])
  also have "\<dots> = Some [''application/json; charset=utf-8'']"
    by (simp add: Header_Set_def Accept_canonical)
  finally show "Header req ''Accept'' = Some [''application/json; charset=utf-8'']" .
qed

theorem Accept_header_unless_overridden_witness:
  "headers (SetHeaders testClient [(''Header1'', ''Value-of-header1'')]) =
     [(''Header1'', ''Value-of-header1'')] \<and>
   CanonicalMIMEHeaderKey ''Header1'' \<noteq> ''Accept'' \<and>
   CanonicalMIMEHeaderKey ''Header2'' \<noteq> ''Accept'' \<and>
   sent (DoRequestWithOptions (testLibrary notFound)
      (SetHeaders testClient [(''Header1'', ''Value-of-header1'')])
      (getOptions\<lparr>RequestOptions.Headers := [(''Header2'', ''Value-of-header2'')],
         RequestOptions.RequestPayloadEncoder := Some (GobEncoder unsupported)\<rparr>)) \<noteq> [] \<and>
   Header (hd (sent (DoRequestWithOptions (testLibrary notFound)
      (SetHeaders testClient [(''Header1'', ''Value-of-header1'')])
      (getOptions\<lparr>RequestOptions.Headers := [(''Header2'', ''Value-of-header2'')],
         RequestOptions.RequestPayloadEncoder := Some (GobEncoder unsupported)\<rparr>))))
     ''Accept'' = Some [''application/json; charset=utf-8'']"
proof -
  let ?c = "SetHeaders testClient [(''Header1'', ''Value-of-header1'')]"
  let ?o = "getOptions\<lparr>RequestOptions.Headers := [(''Header2'', ''Value-of-header2'')],
           RequestOptions.RequestPayloadEncoder := Some (GobEncoder unsupported)\<rparr>"
  have k: "CanonicalMIMEHeaderKey ''Header1'' \<noteq> ''Accept''"
      "CanonicalMIMEHeaderKey ''Header2'' \<noteq> ''Accept''"
    by (simp_all add: string_defs)
  have a: "\<forall>(i, v) \<in> set (headers ?c @ RequestOptions.Headers ?o).
             CanonicalMIMEHeaderKey i \<noteq> ''Accept''"
    using k by (simp add: SetHeaders_def getOptions_def)
  have b: "\<forall>ctx u. RequestOptions.Ctx ?o = Some ctx \<longrightarrow>
             ctx (contextRequestId ?c) = VString u \<longrightarrow>
             CanonicalMIMEHeaderKey (headerKeyRequestID ?c) \<noteq> ''Accept''"
    by (simp add: getOptions_def Background_def)
  have s: "sent (DoRequestWithOptions (testLibrary notFound) ?c ?o) \<noteq> []"
    by (simp add: sent_cases SetHeaders_def testClient_def GobEncoder_def testLibrary_def
          testParams_def getOptions_def wellFormed_def newRequest_def requestBody_def
          NewRequestWithContext_def setDefaultOptions_def NewHttpClient_def Let_def)
  then have m: "hd (sent (DoRequestWithOptions (testLibrary notFound) ?c ?o)) \<in>
                  set (sent (DoRequestWithOptions (testLibrary notFound) ?c ?o))"
    by (rule hd_in_set)
  show ?thesis
    using Accept_header_unless_overridden [OF a b, of "testLibrary notFound"] k s m
    by (simp add: SetHeaders_def)
qed

text \<open>
  The client below has the default header \<open>x-request-id: abc\<close>, and the context of
  the call carries the integer 123 under the request-id key, not a string. The
  outgoing request has the header \<open>X-Request-Id\<close> all the same: the statement of claim
  C10, that the header is set on the outgoing request only if the context carries a
  string, fails here.
\<close>

theorem request_id_header_counterexample:
  "withRequestId (VInt 123) (contextRequestId (SetHeaders testClient [(''x-request-id'', ''abc'')])) =
     VInt 123 \<and>
   fromContextRequestId (SetHeaders testClient [(''x-request-id'', ''abc'')])
     (withRequestId (VInt 123)) = ([], False) \<and>
   CanonicalMIMEHeaderKey (headerKeyRequestID (SetHeaders testClient [(''x-request-id'', ''abc'')])) =
     ''X-Request-Id'' \<and>
   sent (DoRequestWithOptions (testLibrary notFound)
     (SetHeaders testClient [(''x-request-id'', ''abc'')]) (requestIdOptions (VInt 123))) \<noteq> [] \<and>
   Header (hd (sent (DoRequestWithOptions (testLibrary notFound)
     (SetHeaders testClient [(''x-request-id'', ''abc'')]) (requestIdOptions (VInt 123)))))
     ''X-Request-Id'' = Some [''abc'']"
  by (simp add: SetHeaders_def fixture_defs executor_defs string_defs)

text \<open>
  Claim C10, amended. Provided that the canonical name of the request-id header is not
  \<open>Accept\<close>, and that no default header of the client and no header of the call has
  that canonical name, every request handed to the transport carries the request-id
  header if and only if the context of the call carries a string under the configured
  key, and the header then holds exactly that string; with no value, or a value of
  another type, the header is absent. A call without a context reads
  \<open>context.Background()\<close>, which carries nothing.
\<close>

theorem request_id_header_without_collision:
  assumes "ctx = (case RequestOptions.Ctx options of None \<Rightarrow> Background | Some ctx' \<Rightarrow> ctx')"
    and "key = CanonicalMIMEHeaderKey (headerKeyRequestID c)"
    and "key \<noteq> ''Accept''"
    and "\<forall>(i, v) \<in> set (headers c @ RequestOptions.Headers options).
           CanonicalMIMEHeaderKey i \<noteq> key"
  shows "\<forall>req \<in> set (sent (DoRequestWithOptions lib c options)).
           Header req key =
             (case ctx (contextRequestId c) of VString u \<Rightarrow> Some [u] | _ \<Rightarrow> None) \<and>
           (key \<in> dom (Header req) \<longleftrightarrow> (\<exists>u. ctx (contextRequestId c) = VString u))"
proof
  fix req
  assume "req \<in> set (sent (DoRequestWithOptions lib c options))"
  then obtain reqBuffer
    where n: "newRequest lib c (setDefaultOptions c options) = Inr (req, reqBuffer)"
    by (cases "newRequest lib c (setDefaultOptions c options)") (auto simp: sent_cases)
  have a: "\<forall>(i, v) \<in> set (headers c). CanonicalMIMEHeaderKey i \<noteq> key"
    and b: "\<forall>(i, v) \<in> set (RequestOptions.Headers options). CanonicalMIMEHeaderKey i \<noteq> key"
    using assms(4) by auto
  have "Header req key = setHeader c (setDefaultOptions c options) Map.empty key"
    using newRequest_Header [OF n] by simp
  also have "\<dots> = setRequestId c (Some ctx)
      (Header_Set Map.empty ''Accept'' ''application/json; charset=utf-8'') key"
    using assms(1)
    by (simp add: setHeader_def Let_def setAll_other [OF a] setAll_other [OF b]
          setDefaultOptions_Ctx)
  also have "\<dots> = (case ctx (contextRequestId c) of VString u \<Rightarrow> Some [u] | _ \<Rightarrow> None)"
    using assms(2,3)
    by (simp add: setRequestId_def fromContextRequestId_def Header_Set_def Accept_canonical
          split: iface.split)
  finally have h: "Header req key =
      (case ctx (contextRequestId c) of VString u \<Rightarrow> Some [u] | _ \<Rightarrow> None)" .
  then have "key \<in> dom (Header req) \<longleftrightarrow> (\<exists>u. ctx (contextRequestId c) = VString u)"
    by (auto simp: dom_def split: iface.splits)
  with h show "Header req key =
             (case ctx (contextRequestId c) of VString u \<Rightarrow> Some [u] | _ \<Rightarrow> None) \<and>
           (key \<in> dom (Header req) \<longleftrightarrow> (\<exists>u. ctx (contextRequestId c) = VString u))"
    by simp
qed

text \<open>
  The client of the tests, with the string \<open>req-123\<close> and then with the integer 123
  under the request-id key of the context.
\<close>

theorem request_id_header_without_collision_witness:
  "CanonicalMIMEHeaderKey (headerKeyRequestID testClient) = ''X-Request-Id'' \<and>
   headers testClient @ RequestOptions.Headers (requestIdOptions (VString ''req-123'')) = [] \<and>
   headers testClient @ RequestOptions.Headers (requestIdOptions (VInt 123)) = [] \<and>
   sent (DoRequestWithOptions (testLibrary notFound) testClient
     (requestIdOptions (VString ''req-123''))) \<noteq> [] \<and>
   Header (hd (sent (DoRequestWithOptions (testLibrary notFound) testClient
     (requestIdOptions (VString ''req-123''))))) ''X-Request-Id'' = Some [''req-123''] \<and>
   sent (DoRequestWithOptions (testLibrary notFound) testClient
     (requestIdOptions (VInt 123))) \<noteq> [] \<and>
   Header (hd (sent (DoRequestWithOptions (testLibrary notFound) testClient
     (requestIdOptions (VInt 123))))) ''X-Request-Id'' = None"
proof -
  let ?lib = "testLibrary notFound"
  have k: "contextRequestId testClient = ''0''"
      "headerKeyRequestID testClient = ''X-Request-Id''"
      "headers testClient = []"
    by (simp_all add: testClient_def NewHttpClient_def testParams_def)
  have x: "CanonicalMIMEHeaderKey ''X-Request-Id'' = ''X-Request-Id''"
    by (simp add: string_defs)
  have c: "\<And>v. withRequestId v =
      (case RequestOptions.Ctx (requestIdOptions v) of
         None \<Rightarrow> Background | Some ctx' \<Rightarrow> ctx')"
    by (simp add: requestIdOptions_def)
  have o: "\<And>v. RequestOptions.Headers (requestIdOptions v) = []"
    by (simp add: requestIdOptions_def getOptions_def)
  have y: "''X-Request-Id'' = CanonicalMIMEHeaderKey (headerKeyRequestID testClient)"
    by (simp add: k x)
  have a: "''X-Request-Id'' \<noteq> ''Accept''"
    by simp
  have b: "\<And>v. \<forall>(i, w) \<in> set (headers testClient @ RequestOptions.Headers (requestIdOptions v)).
             CanonicalMIMEHeaderKey i \<noteq> ''X-Request-Id''"
    by (simp add: k o)
  have s: "\<And>v. sent (DoRequestWithOptions ?lib testClient (requestIdOptions v)) \<noteq> []"
    by (simp add: sent_cases newRequest_requestIdOptions)
  have m: "\<And>v. hd (sent (DoRequestWithOptions ?lib testClient (requestIdOptions v))) \<in>
                  set (sent (DoRequestWithOptions ?lib testClient (requestIdOptions v)))"
    using s by (rule hd_in_set)
  show ?thesis
    using request_id_header_without_collision
            [OF c [of "VString ''req-123''"] y a b [of "VString ''req-123''"], where lib = ?lib]
          request_id_header_without_collision
            [OF c [of "VInt 123"] y a b [of "VInt 123"], where lib = ?lib]
          m [of "VString ''req-123''"] m [of "VInt 123"] s k x o
    by (auto simp: withRequestId_def)
qed

end
